theory Spec2Isabelle
  imports Main "HOL-Library.Multiset"
begin

section \<open>Data model\<close>

text \<open>
  The \<open>Document\<close> of \<open>types.ts\<close>, as \<open>transformSupabaseDocument\<close> builds it.
  \<open>type\<close> is kept as a string because the viewer calls \<open>document.type.includes(...)\<close>
  on it. \<open>dateAdded\<close> is the value of \<open>new Date(doc.dateAdded).getTime()\<close>, the
  instant in milliseconds since the epoch: every use of the field in the filter goes
  through that call, and the store only hands out well-formed ISO instants. \<open>category\<close>
  and \<open>storagePath\<close> may be absent (\<open>undefined\<close>), so they are options. Strings are
  byte strings; \<open>toLowerCase\<close> below folds the ASCII letters only. Field names that
  several records share are written with the record's name where they are not the
  document's.
\<close>

datatype CurrentSection = Files | Articles | Favorites | Recent

datatype Timeframe = AllTime | Today | ThisWeek | ThisMonth

record FilterOptions =
  types :: "string list"
  categories :: "string list"
  timeframe :: Timeframe
  tags :: "string list"

text \<open>
  A browser \<open>File\<close>: \<open>fileType\<close> is its \<open>type\<close> (the MIME type) and \<open>fileSize\<close> its
  \<open>size\<close> in bytes.
\<close>

record File =
  name :: string
  fileType :: string
  fileSize :: nat

text \<open>\<open>UploadParams\<close>; \<open>theFile\<close> is its field \<open>file\<close>.\<close>

record UploadParams =
  theFile :: File
  title :: string
  category :: "string option"
  tags :: "string list option"
  backgroundColor :: "string option"

record document =
  id :: string
  title :: string
  type :: string
  tags :: "string list"
  dateAdded :: int
  favorite :: bool
  category :: "string option"
  backgroundColor :: string
  content :: "string option"
  storagePath :: "string option"

text \<open>The initial value of the \<open>filters\<close> state in \<open>App\<close>, also set by "Clear all filters".\<close>

definition defaultFilters :: FilterOptions where
  "defaultFilters =
     \<lparr>types = [], categories = [], timeframe = AllTime, FilterOptions.tags = []\<rparr>"

section \<open>String operations of the host language\<close>

fun startsWith :: "string \<Rightarrow> string \<Rightarrow> bool" where
  "startsWith s [] = True"
| "startsWith [] (q # qs) = False"
| "startsWith (c # cs) (q # qs) = (c = q \<and> startsWith cs qs)"

text \<open>\<open>String.prototype.includes\<close>: the empty string is included in every string.\<close>

fun includesStr :: "string \<Rightarrow> string \<Rightarrow> bool" where
  "includesStr [] q = (q = [])"
| "includesStr (c # cs) q = (startsWith (c # cs) q \<or> includesStr cs q)"

definition endsWith :: "string \<Rightarrow> string \<Rightarrow> bool" where
  "endsWith s q = startsWith (rev s) (rev q)"

text \<open>The upper-case ASCII letters and their lower-case forms.\<close>

definition toLowerChar :: "char \<Rightarrow> char" where
  "toLowerChar c =
     (case map_of (zip ''ABCDEFGHIJKLMNOPQRSTUVWXYZ'' ''abcdefghijklmnopqrstuvwxyz'') c of
        None \<Rightarrow> c
      | Some l \<Rightarrow> l)"

definition toLowerCase :: "string \<Rightarrow> string" where
  "toLowerCase s = map toLowerChar s"

text \<open>A string is truthy when it is present and not empty.\<close>

fun truthy :: "string option \<Rightarrow> bool" where
  "truthy None = False"
| "truthy (Some s) = (s \<noteq> [])"

text \<open>\<open>arr.includes(v)\<close> for a value that may be \<open>undefined\<close>; the arrays hold strings only.\<close>

fun includesOpt :: "string list \<Rightarrow> string option \<Rightarrow> bool" where
  "includesOpt xs None = False"
| "includesOpt xs (Some s) = (s \<in> set xs)"

section \<open>The filter pipeline of \<open>App\<close>\<close>

subsection \<open>\<open>Array.prototype.sort\<close> with a comparator\<close>

text \<open>
  The language standard requires \<open>sort\<close> to be stable. A stable sort has one result
  for a consistent comparator, so it is modelled by insertion from the right, where an
  element goes in front of the first element it does not compare greater than.
\<close>

fun insertBy :: "('a \<Rightarrow> 'a \<Rightarrow> int) \<Rightarrow> 'a \<Rightarrow> 'a list \<Rightarrow> 'a list" where
  "insertBy cmp x [] = [x]"
| "insertBy cmp x (y # ys) = (if cmp x y \<le> 0 then x # y # ys else y # insertBy cmp x ys)"

definition arraySort :: "('a \<Rightarrow> 'a \<Rightarrow> int) \<Rightarrow> 'a list \<Rightarrow> 'a list" where
  "arraySort cmp xs = foldr (insertBy cmp) xs []"

text \<open>The comparator \<open>(a, b) => new Date(b.dateAdded).getTime() - new Date(a.dateAdded).getTime()\<close>.\<close>

definition byDateDesc :: "document \<Rightarrow> document \<Rightarrow> int" where
  "byDateDesc a b = dateAdded b - dateAdded a"

subsection \<open>The stages\<close>

definition sectionFilter :: "CurrentSection \<Rightarrow> document list \<Rightarrow> document list" where
  "sectionFilter section filtered =
     (if section = Favorites then filter favorite filtered
      else if section = Articles then filter (\<lambda>doc. type doc = ''article'') filtered
      else if section = Recent then take 6 (arraySort byDateDesc filtered)
      else filtered)"

definition matchesSearch :: "string \<Rightarrow> document \<Rightarrow> bool" where
  "matchesSearch query doc =
     (includesStr (toLowerCase (title doc)) query
      \<or> list_ex (\<lambda>tag. includesStr (toLowerCase tag) query) (tags doc)
      \<or> (case category doc of
            None \<Rightarrow> False
          | Some c \<Rightarrow> c \<noteq> [] \<and> includesStr (toLowerCase c) query))"

definition searchFilter :: "string \<Rightarrow> document list \<Rightarrow> document list" where
  "searchFilter searchQuery filtered =
     (if searchQuery \<noteq> []
      then filter (matchesSearch (toLowerCase searchQuery)) filtered
      else filtered)"

definition matchesType :: "string list \<Rightarrow> document \<Rightarrow> bool" where
  "matchesType ts doc = (type doc \<in> set ts \<or> ''all'' \<in> set ts)"

definition typeFilter :: "string list \<Rightarrow> document list \<Rightarrow> document list" where
  "typeFilter ts filtered = (if length ts > 0 then filter (matchesType ts) filtered else filtered)"

definition matchesCategory :: "string list \<Rightarrow> document \<Rightarrow> bool" where
  "matchesCategory cs doc =
     (includesOpt cs (category doc)
      \<or> ''all'' \<in> set cs
      \<or> (''uncategorized'' \<in> set cs \<and> \<not> truthy (category doc)))"

definition categoryFilter :: "string list \<Rightarrow> document list \<Rightarrow> document list" where
  "categoryFilter cs filtered =
     (if length cs > 0 then filter (matchesCategory cs) filtered else filtered)"

definition matchesTags :: "string list \<Rightarrow> document \<Rightarrow> bool" where
  "matchesTags sel doc = list_ex (\<lambda>tag. tag \<in> set sel) (tags doc)"

definition tagFilter :: "string list \<Rightarrow> document list \<Rightarrow> document list" where
  "tagFilter sel filtered = (if length sel > 0 then filter (matchesTags sel) filtered else filtered)"

text \<open>
  The time stage reads the clock. \<open>today\<close> is the result of
  \<open>new Date(now.getFullYear(), now.getMonth(), now.getDate()).getTime()\<close>, the start of
  the local calendar day that contains \<open>now\<close>; the calendar and the time zone belong to
  the host, so the function from \<open>now\<close> to that instant is a parameter \<open>startOfDay\<close>.
\<close>

definition inTimeframe :: "Timeframe \<Rightarrow> int \<Rightarrow> document \<Rightarrow> bool" where
  "inTimeframe tf today doc =
     (let docDate = dateAdded doc in
      case tf of
        Today \<Rightarrow> docDate \<ge> today
      | ThisWeek \<Rightarrow> (let weekAgo = today - (7 * 24 * 60 * 60 * 1000) in docDate \<ge> weekAgo)
      | ThisMonth \<Rightarrow> (let monthAgo = today - (30 * 24 * 60 * 60 * 1000) in docDate \<ge> monthAgo)
      | AllTime \<Rightarrow> True)"

definition timeFilter :: "(int \<Rightarrow> int) \<Rightarrow> int \<Rightarrow> Timeframe \<Rightarrow> document list \<Rightarrow> document list" where
  "timeFilter startOfDay now tf filtered =
     (if tf \<noteq> AllTime
      then (let today = startOfDay now in filter (inTimeframe tf today) filtered)
      else filtered)"

text \<open>The body of the filtering effect: the value passed to \<open>setFilteredDocuments\<close>.\<close>

definition filterDocuments ::
  "(int \<Rightarrow> int) \<Rightarrow> int \<Rightarrow> document list \<Rightarrow> CurrentSection \<Rightarrow> string \<Rightarrow> FilterOptions \<Rightarrow> document list" where
  "filterDocuments startOfDay now documents currentSection searchQuery filters =
     timeFilter startOfDay now (timeframe filters)
       (tagFilter (FilterOptions.tags filters)
         (categoryFilter (categories filters)
           (typeFilter (types filters)
             (searchFilter searchQuery
               (sectionFilter currentSection documents)))))"

text \<open>A clock for the zone UTC, used where a concrete clock is needed.\<close>

definition utcStartOfDay :: "int \<Rightarrow> int" where
  "utcStartOfDay now = now - now mod 86400000"

section \<open>Derived collections of \<open>App\<close>\<close>

text \<open>
  A \<open>Set\<close> keeps its elements in insertion order and ignores an element it already
  holds; spreading it gives the elements in that order.
\<close>

definition setAdd :: "'a list \<Rightarrow> 'a \<Rightarrow> 'a list" where
  "setAdd s x = (if x \<in> set s then s else s @ [x])"

definition newSet :: "'a list \<Rightarrow> 'a list" where
  "newSet xs = foldl setAdd [] xs"

text \<open>\<open>documents.map(doc => doc.category).filter(Boolean)\<close>: the truthy categories.\<close>

fun truthyCategories :: "document list \<Rightarrow> string list" where
  "truthyCategories [] = []"
| "truthyCategories (doc # docs) =
     (case category doc of
        None \<Rightarrow> truthyCategories docs
      | Some c \<Rightarrow> (if c \<noteq> [] then c # truthyCategories docs else truthyCategories docs))"

definition getAvailableCategories :: "document list \<Rightarrow> string list" where
  "getAvailableCategories documents =
     ''all'' # newSet (truthyCategories documents) @ [''uncategorized'']"

definition getAvailableTags :: "document list \<Rightarrow> string list" where
  "getAvailableTags documents = newSet (concat (map tags documents))"

section \<open>The filter state of \<open>Sidebar\<close>\<close>

definition handleTypeChange :: "string \<Rightarrow> bool \<Rightarrow> FilterOptions \<Rightarrow> FilterOptions" where
  "handleTypeChange typeId checked prev =
     (if typeId = ''all'' then prev\<lparr>types := (if checked then [''all''] else [])\<rparr>
      else (let updatedTypes = filter (\<lambda>t. t \<noteq> ''all'') (types prev) in
            if checked then prev\<lparr>types := updatedTypes @ [typeId]\<rparr>
            else prev\<lparr>types := filter (\<lambda>t. t \<noteq> typeId) updatedTypes\<rparr>))"

definition handleCategoryChange :: "string \<Rightarrow> bool \<Rightarrow> FilterOptions \<Rightarrow> FilterOptions" where
  "handleCategoryChange cat checked prev =
     (if cat = ''all'' then prev\<lparr>categories := (if checked then [''all''] else [])\<rparr>
      else (let updatedCategories = filter (\<lambda>c. c \<noteq> ''all'') (categories prev) in
            if checked then prev\<lparr>categories := updatedCategories @ [cat]\<rparr>
            else prev\<lparr>categories := filter (\<lambda>c. c \<noteq> cat) updatedCategories\<rparr>))"

definition handleTimeChange :: "Timeframe \<Rightarrow> FilterOptions \<Rightarrow> FilterOptions" where
  "handleTimeChange timeId prev = prev\<lparr>timeframe := timeId\<rparr>"

definition handleTagClick :: "string \<Rightarrow> FilterOptions \<Rightarrow> FilterOptions" where
  "handleTagClick tag prev =
     (if tag \<in> set (FilterOptions.tags prev)
      then prev\<lparr>FilterOptions.tags := filter (\<lambda>t. t \<noteq> tag) (FilterOptions.tags prev)\<rparr>
      else prev\<lparr>FilterOptions.tags := FilterOptions.tags prev @ [tag]\<rparr>)"

text \<open>
  What the user can do in the sidebar: tick or untick a type or a category, choose a
  time window, click a tag, or press "Clear all filters". Each is one call of
  \<open>setFilters\<close> with an updater, and the updaters run in the order of the events.
\<close>

datatype SidebarEvent =
    TypeChange string bool
  | CategoryChange string bool
  | TimeChange Timeframe
  | TagClick string
  | ClearAll

fun sidebarStep :: "FilterOptions \<Rightarrow> SidebarEvent \<Rightarrow> FilterOptions" where
  "sidebarStep prev (TypeChange typeId checked) = handleTypeChange typeId checked prev"
| "sidebarStep prev (CategoryChange cat checked) = handleCategoryChange cat checked prev"
| "sidebarStep prev (TimeChange timeId) = handleTimeChange timeId prev"
| "sidebarStep prev (TagClick tag) = handleTagClick tag prev"
| "sidebarStep prev ClearAll = defaultFilters"

definition sidebarRun :: "SidebarEvent list \<Rightarrow> FilterOptions" where
  "sidebarRun events = foldl sidebarStep defaultFilters events"

text \<open>The "all" sentinel stands alone: a selection is empty, only "all", or free of "all".\<close>

definition allStandsAlone :: "string list \<Rightarrow> bool" where
  "allStandsAlone sel = (sel = [] \<or> sel = [''all''] \<or> ''all'' \<notin> set sel)"

section \<open>The content-type dispatch of \<open>DocumentViewer.loadDocument\<close>\<close>

datatype RenderMode = InlineText | Markdown | PlainText | Image | Pdf | Unsupported

text \<open>\<open>document.storagePath?.endsWith(ext)\<close>: false when there is no storage path.\<close>

fun pathEndsWith :: "string option \<Rightarrow> string \<Rightarrow> bool" where
  "pathEndsWith None ext = False"
| "pathEndsWith (Some p) ext = endsWith p ext"

text \<open>
  The branch \<open>loadDocument\<close> takes once its requests have succeeded, named by what
  \<open>renderContent\<close> then shows. An article shows its own content (\<open>text/plain\<close>);
  \<open>application/pdf\<close> and \<open>image/jpeg\<close> are rendered from the preview URL;
  \<open>text/markdown\<close> and \<open>text/plain\<close> fetch the text behind the URL; the last branch
  takes the content type of the preview, fetches nothing, and \<open>renderContent\<close> falls
  back to the download link.
\<close>

definition classify :: "document \<Rightarrow> RenderMode" where
  "classify doc =
     (if type doc = ''article'' then InlineText
      else if type doc = ''pdf'' then Pdf
      else if type doc = ''image'' then Image
      else if includesStr (type doc) ''markdown'' \<or> pathEndsWith (storagePath doc) ''.md''
        then Markdown
      else if includesStr (type doc) ''text'' \<or> pathEndsWith (storagePath doc) ''.txt''
              \<or> pathEndsWith (storagePath doc) ''.json''
        then PlainText
      else Unsupported)"

text \<open>
  The same tests in the order the specification lists them: article, markdown, text,
  image, pdf. It is compared with \<open>classify\<close> below.
\<close>

definition classifyBySpec :: "document \<Rightarrow> RenderMode" where
  "classifyBySpec doc =
     (if type doc = ''article'' then InlineText
      else if includesStr (type doc) ''markdown'' \<or> pathEndsWith (storagePath doc) ''.md''
        then Markdown
      else if includesStr (type doc) ''text'' \<or> pathEndsWith (storagePath doc) ''.txt''
              \<or> pathEndsWith (storagePath doc) ''.json''
        then PlainText
      else if type doc = ''image'' then Image
      else if type doc = ''pdf'' then Pdf
      else Unsupported)"

section \<open>Uploading: \<open>documentService.uploadFile\<close> and \<open>UploadModal\<close>\<close>

definition MAX_FILE_SIZE :: nat where
  "MAX_FILE_SIZE = 10 * 1024 * 1024"

text \<open>\<open>a || b\<close> on strings that may be absent: \<open>b\<close> when \<open>a\<close> is absent or empty.\<close>

fun orElse :: "string option \<Rightarrow> string \<Rightarrow> string" where
  "orElse None d = d"
| "orElse (Some s) d = (if s \<noteq> [] then s else d)"

text \<open>\<open>s.split(sep)\<close> for a one-character separator; the result is never empty.\<close>

fun splitOn :: "char \<Rightarrow> string \<Rightarrow> string list" where
  "splitOn sep [] = [[]]"
| "splitOn sep (c # cs) =
     (if c = sep then [] # splitOn sep cs
      else (case splitOn sep cs of
              [] \<Rightarrow> [[c]]
            | w # ws \<Rightarrow> (c # w) # ws))"

text \<open>
  \<open>trim\<close> strips the ASCII white space (space, tab, line feed, vertical tab, form feed,
  carriage return); the white space beyond ASCII that the host also strips is left in
  place, so the form accepts no fewer titles here than it does there.
\<close>

definition isSpace :: "char \<Rightarrow> bool" where
  "isSpace c = (c \<in> set [CHR '' '', CHR 0x09, CHR 0x0A, CHR 0x0B, CHR 0x0C, CHR 0x0D])"

definition trim :: "string \<Rightarrow> string" where
  "trim s = rev (dropWhile isSpace (rev (dropWhile isSpace s)))"

text \<open>
  The requests \<open>uploadFile\<close> sends to the store, in the order it sends them: the blob
  to the bucket, the row to the table, and the removal of the blob. The answers of the
  store, the clock and the random file name are the environment of a call.
\<close>

datatype StoreCall =
    StorageUpload string File
  | InsertDocument string
  | StorageRemove string

datatype UploadError = ErrorUploadingFile string | ErrorCreatingRecord string

record Backend =
  uploadError :: "string option"
  documentError :: "string option"
  newId :: string
  uniqueName :: string
  nowMs :: int

definition detectType :: "UploadParams \<Rightarrow> string \<times> string" where
  "detectType params =
     (let f = theFile params; color = UploadParams.backgroundColor params in
      if includesStr (fileType f) ''pdf'' then (''pdf'', orElse color ''#FFEBEE'')
      else if includesStr (fileType f) ''doc'' then (''doc'', orElse color ''#E8F5E9'')
      else if includesStr (fileType f) ''image'' then (''image'', orElse color ''#FFF8E1'')
      else if includesStr (fileType f) ''markdown'' \<or> endsWith (name f) ''.md''
              \<or> endsWith (name f) ''.markdown''
        then (''markdown'', orElse color ''#E1F5FE'')
      else if includesStr (fileType f) ''text'' \<or> endsWith (name f) ''.txt''
              \<or> endsWith (name f) ''.json''
        then (''text'', orElse color ''#F3E5F5'')
      else (''other'', orElse color ''#E3F2FD''))"

definition uploadFile :: "Backend \<Rightarrow> UploadParams \<Rightarrow> StoreCall list \<times> (UploadError + document)" where
  "uploadFile env params =
     (let (ty, color) = detectType params;
          fileExt = last (splitOn (CHR ''.'') (name (theFile params)));
          filePath = uniqueName env @ ''.'' @ fileExt
      in case uploadError env of
           Some msg \<Rightarrow> ([StorageUpload filePath (theFile params)], Inl (ErrorUploadingFile msg))
         | None \<Rightarrow>
             (case documentError env of
                Some msg \<Rightarrow>
                  ([StorageUpload filePath (theFile params), InsertDocument filePath,
                    StorageRemove filePath],
                   Inl (ErrorCreatingRecord msg))
              | None \<Rightarrow>
                  ([StorageUpload filePath (theFile params), InsertDocument filePath],
                   Inr \<lparr>id = newId env,
                        title = UploadParams.title params,
                        type = ty,
                        tags = (case UploadParams.tags params of None \<Rightarrow> [] | Some ts \<Rightarrow> ts),
                        dateAdded = nowMs env,
                        favorite = False,
                        category = Some (orElse (UploadParams.category params) []),
                        backgroundColor = orElse (Some color) ''#E3F2FD'',
                        content = None,
                        storagePath = Some filePath\<rparr>)))"

fun errorMessage :: "UploadError \<Rightarrow> string" where
  "errorMessage (ErrorUploadingFile msg) = ''Error uploading file: '' @ msg"
| "errorMessage (ErrorCreatingRecord msg) = ''Error creating document record: '' @ msg"

text \<open>
  The form state of \<open>UploadModal\<close>: \<open>titleInput\<close>, \<open>categoryInput\<close>, \<open>tagsInput\<close>,
  \<open>colorInput\<close> and \<open>errorMsg\<close> are its states \<open>title\<close>, \<open>category\<close>, \<open>tags\<close>,
  \<open>backgroundColor\<close> and \<open>error\<close>.
\<close>

record UploadModal =
  titleInput :: string
  selectedFile :: "File option"
  categoryInput :: string
  tagsInput :: string
  colorInput :: string
  errorMsg :: "string option"

definition resetForm :: UploadModal where
  "resetForm = \<lparr>titleInput = [], selectedFile = None, categoryInput = [], tagsInput = [],
                 colorInput = ''#E3F2FD'', errorMsg = None\<rparr>"

definition onDrop :: "File list \<Rightarrow> UploadModal \<Rightarrow> UploadModal" where
  "onDrop acceptedFiles m =
     (case acceptedFiles of
        [] \<Rightarrow> m
      | f # _ \<Rightarrow>
          (if fileSize f > MAX_FILE_SIZE
           then m\<lparr>errorMsg := Some ''File exceeds the 10MB limit''\<rparr>
           else m\<lparr>selectedFile := Some f, errorMsg := None\<rparr>))"

definition handleSubmit :: "Backend \<Rightarrow> UploadModal \<Rightarrow> UploadModal \<times> StoreCall list" where
  "handleSubmit env m =
     (case selectedFile m of
        None \<Rightarrow> (m\<lparr>errorMsg := Some ''Title and file are required''\<rparr>, [])
      | Some f \<Rightarrow>
          (if trim (titleInput m) = []
           then (m\<lparr>errorMsg := Some ''Title and file are required''\<rparr>, [])
           else (let uploadParams =
                       \<lparr>theFile = f,
                        UploadParams.title = trim (titleInput m),
                        UploadParams.category =
                          (if trim (categoryInput m) \<noteq> [] then Some (trim (categoryInput m))
                           else None),
                        UploadParams.tags =
                          Some (if trim (tagsInput m) \<noteq> []
                                then map trim (splitOn (CHR '','') (tagsInput m)) else []),
                        UploadParams.backgroundColor = Some (colorInput m)\<rparr>
                 in case uploadFile env uploadParams of
                      (calls, Inr result) \<Rightarrow> (resetForm, calls)
                    | (calls, Inl err) \<Rightarrow> (m\<lparr>errorMsg := Some (errorMessage err)\<rparr>, calls))))"

datatype ModalEvent =
    Drop "File list"
  | RemoveFile
  | SetTitle string
  | SetCategory string
  | SetTags string
  | SelectColor string
  | Submit Backend
  | Close

fun modalStep :: "UploadModal \<times> StoreCall list \<Rightarrow> ModalEvent \<Rightarrow> UploadModal \<times> StoreCall list" where
  "modalStep (m, sent) (Drop acceptedFiles) = (onDrop acceptedFiles m, sent)"
| "modalStep (m, sent) RemoveFile = (m\<lparr>selectedFile := None\<rparr>, sent)"
| "modalStep (m, sent) (SetTitle v) = (m\<lparr>titleInput := v\<rparr>, sent)"
| "modalStep (m, sent) (SetCategory v) = (m\<lparr>categoryInput := v\<rparr>, sent)"
| "modalStep (m, sent) (SetTags v) = (m\<lparr>tagsInput := v\<rparr>, sent)"
| "modalStep (m, sent) (SelectColor v) = (m\<lparr>colorInput := v\<rparr>, sent)"
| "modalStep (m, sent) (Submit env) = (case handleSubmit env m of (m', calls) \<Rightarrow> (m', sent @ calls))"
| "modalStep (m, sent) Close = (resetForm, sent)"

definition modalRun :: "ModalEvent list \<Rightarrow> UploadModal \<times> StoreCall list" where
  "modalRun events = foldl modalStep (resetForm, []) events"

text \<open>The blobs a list of requests sends to the bucket.\<close>

fun uploadedFiles :: "StoreCall list \<Rightarrow> File list" where
  "uploadedFiles [] = []"
| "uploadedFiles (StorageUpload p f # cs) = f # uploadedFiles cs"
| "uploadedFiles (c # cs) = uploadedFiles cs"

section \<open>The filtering effect on arrays in the store\<close>

text \<open>
  Arrays are objects: \<open>sort\<close> writes into the array it is called on, while the spread
  \<open>[...documents]\<close>, \<open>filter\<close> and \<open>slice\<close> build a new array. To say what the effect
  does to the array it is given, the arrays live in a store, addressed by references,
  and \<open>fresh\<close> is the next unused reference.
\<close>

type_synonym ref = nat

record store =
  cells :: "ref \<Rightarrow> document list"
  fresh :: ref

definition alloc :: "document list \<Rightarrow> store \<Rightarrow> ref \<times> store" where
  "alloc xs h = (fresh h, h\<lparr>cells := (cells h)(fresh h := xs), fresh := Suc (fresh h)\<rparr>)"

definition spread :: "ref \<Rightarrow> store \<Rightarrow> ref \<times> store" where
  "spread r h = alloc (cells h r) h"

definition arrayFilter :: "(document \<Rightarrow> bool) \<Rightarrow> ref \<times> store \<Rightarrow> ref \<times> store" where
  "arrayFilter p rh = (case rh of (r, h) \<Rightarrow> alloc (filter p (cells h r)) h)"

definition sortInPlace :: "(document \<Rightarrow> document \<Rightarrow> int) \<Rightarrow> ref \<times> store \<Rightarrow> ref \<times> store" where
  "sortInPlace cmp rh =
     (case rh of (r, h) \<Rightarrow> (r, h\<lparr>cells := (cells h)(r := arraySort cmp (cells h r))\<rparr>))"

definition sliceTo :: "nat \<Rightarrow> ref \<times> store \<Rightarrow> ref \<times> store" where
  "sliceTo n rh = (case rh of (r, h) \<Rightarrow> alloc (take n (cells h r)) h)"

text \<open>
  The effect, statement by statement; the pair is the variable \<open>filtered\<close> and the
  store. The result is the reference handed to \<open>setFilteredDocuments\<close>.
\<close>

definition filterEffect ::
  "(int \<Rightarrow> int) \<Rightarrow> int \<Rightarrow> ref \<Rightarrow> CurrentSection \<Rightarrow> string \<Rightarrow> FilterOptions \<Rightarrow> store \<Rightarrow> ref \<times> store" where
  "filterEffect startOfDay now documents currentSection searchQuery filters h0 =
     (let filtered = spread documents h0;
          filtered =
            (if currentSection = Favorites then arrayFilter favorite filtered
             else if currentSection = Articles
               then arrayFilter (\<lambda>doc. type doc = ''article'') filtered
             else if currentSection = Recent then sliceTo 6 (sortInPlace byDateDesc filtered)
             else filtered);
          filtered =
            (if searchQuery \<noteq> []
             then arrayFilter (matchesSearch (toLowerCase searchQuery)) filtered
             else filtered);
          filtered =
            (if length (types filters) > 0
             then arrayFilter (matchesType (types filters)) filtered else filtered);
          filtered =
            (if length (categories filters) > 0
             then arrayFilter (matchesCategory (categories filters)) filtered else filtered);
          filtered =
            (if length (FilterOptions.tags filters) > 0
             then arrayFilter (matchesTags (FilterOptions.tags filters)) filtered
             else filtered);
          filtered =
            (if timeframe filters \<noteq> AllTime
             then (let today = startOfDay now
                   in arrayFilter (inTimeframe (timeframe filters) today) filtered)
             else filtered)
      in filtered)"

text \<open>
  A reference and a store computed from \<open>h0\<close> own the value \<open>v\<close>: the reference was
  allocated after \<open>h0\<close>, it holds \<open>v\<close>, and every array of \<open>h0\<close> is as it was.
\<close>

definition owns :: "store \<Rightarrow> document list \<Rightarrow> ref \<times> store \<Rightarrow> bool" where
  "owns h0 v rh =
     (case rh of (r, h) \<Rightarrow>
        fresh h0 \<le> r \<and> r < fresh h \<and> cells h r = v
        \<and> list_all (\<lambda>a. cells h a = cells h0 a) [0..<fresh h0])"

section \<open>Vocabulary of the properties\<close>

text \<open>Newest first: no document is followed by a younger one.\<close>

definition newestFirst :: "document list \<Rightarrow> bool" where
  "newestFirst xs = sorted_wrt (\<lambda>a b. dateAdded a \<ge> dateAdded b) xs"

text \<open>The conjunction of the stages after the section stage, as one predicate.\<close>

definition keeps :: "(int \<Rightarrow> int) \<Rightarrow> int \<Rightarrow> string \<Rightarrow> FilterOptions \<Rightarrow> document \<Rightarrow> bool" where
  "keeps startOfDay now searchQuery filters doc =
     ((searchQuery = [] \<or> matchesSearch (toLowerCase searchQuery) doc)
      \<and> (types filters = [] \<or> matchesType (types filters) doc)
      \<and> (categories filters = [] \<or> matchesCategory (categories filters) doc)
      \<and> (FilterOptions.tags filters = [] \<or> matchesTags (FilterOptions.tags filters) doc)
      \<and> (timeframe filters = AllTime \<or> inTimeframe (timeframe filters) (startOfDay now) doc))"

text \<open>A document with empty or absent category, the reading of "uncategorized".\<close>

definition uncategorized :: "document \<Rightarrow> bool" where
  "uncategorized doc = (\<not> truthy (category doc))"

text \<open>The distinct elements of a list in first-seen order, as the specification words it.\<close>

primrec firstOccurrences :: "'a list \<Rightarrow> 'a list" where
  "firstOccurrences [] = []"
| "firstOccurrences (x # xs) = x # filter (\<lambda>y. y \<noteq> x) (firstOccurrences xs)"

text \<open>A file within the ceiling, and the invariant of the upload form.\<close>

definition withinLimit :: "File \<Rightarrow> bool" where
  "withinLimit f = (fileSize f \<le> MAX_FILE_SIZE)"

definition modalInv :: "UploadModal \<times> StoreCall list \<Rightarrow> bool" where
  "modalInv ms =
     (case ms of (m, sent) \<Rightarrow>
        (case selectedFile m of None \<Rightarrow> True | Some f \<Rightarrow> withinLimit f)
        \<and> list_all withinLimit (uploadedFiles sent))"

section \<open>Sample data\<close>

definition mkDoc :: "string \<Rightarrow> string \<Rightarrow> string \<Rightarrow> bool \<Rightarrow> int \<Rightarrow> document" where
  "mkDoc i ttl ty fav added =
     \<lparr>id = i, title = ttl, type = ty, tags = [], dateAdded = added, favorite = fav,
      category = None, backgroundColor = ''#E3F2FD'', content = None, storagePath = None\<rparr>"

text \<open>
  The two documents of the scenario: an article of 2024-01-01 and a PDF of 2024-06-01
  (midnight UTC, in milliseconds), with nothing but the fields the scenario names.
\<close>

definition scenarioDocs :: "document list" where
  "scenarioDocs =
     [mkDoc ''1'' [] ''article'' True 1704067200000,
      mkDoc ''2'' [] ''pdf'' False 1717200000000]"

text \<open>The same two documents with titles.\<close>

definition titledDocs :: "document list" where
  "titledDocs =
     [mkDoc ''1'' ''Diary'' ''article'' True 1704067200000,
      mkDoc ''2'' ''Report.PDF'' ''pdf'' False 1717200000000]"

text \<open>Seven documents, two pairs of them added at the same instant.\<close>

definition sevenDocs :: "document list" where
  "sevenDocs =
     [mkDoc ''1'' ''a'' ''pdf'' False 5, mkDoc ''2'' ''b'' ''pdf'' False 3,
      mkDoc ''3'' ''c'' ''pdf'' False 9, mkDoc ''4'' ''d'' ''pdf'' False 3,
      mkDoc ''5'' ''e'' ''pdf'' False 7, mkDoc ''6'' ''f'' ''pdf'' False 1,
      mkDoc ''7'' ''g'' ''pdf'' False 9]"

text \<open>A store that holds one array, at reference 0.\<close>

definition oneArray :: "document list \<Rightarrow> store" where
  "oneArray xs = \<lparr>cells = (\<lambda>_. [])(0 := xs), fresh = 1\<rparr>"

definition bigFile :: File where
  "bigFile = \<lparr>name = ''big.pdf'', fileType = ''application/pdf'', fileSize = 11 * 1024 * 1024\<rparr>"

definition smallFile :: File where
  "smallFile = \<lparr>name = ''notes.txt'', fileType = ''text/plain'', fileSize = 2048\<rparr>"

text \<open>A file whose name says markdown and whose MIME type says PDF.\<close>

definition pdfNamedMd :: File where
  "pdfNamedMd = \<lparr>name = ''notes.md'', fileType = ''application/pdf'', fileSize = 2048\<rparr>"

definition okBackend :: Backend where
  "okBackend = \<lparr>uploadError = None, documentError = None, newId = ''42'',
                 uniqueName = ''1700000000000_ab12'', nowMs = 1700000000000\<rparr>"

text \<open>The document \<open>uploadFile\<close> returns for \<open>pdfNamedMd\<close>.\<close>

definition pdfNamedMdDoc :: document where
  "pdfNamedMdDoc =
     \<lparr>id = ''42'', title = ''Notes'', type = ''pdf'', tags = [], dateAdded = 1700000000000,
      favorite = False, category = Some [], backgroundColor = ''#FFEBEE'', content = None,
      storagePath = Some ''1700000000000_ab12.md''\<rparr>"

section \<open>The sort\<close>

lemma insertBy_byDateDesc:
  "insertBy byDateDesc x ys = insort_key (\<lambda>d. - dateAdded d) x ys"
  by (induction ys) (auto simp: byDateDesc_def)

lemma arraySort_byDateDesc:
  "arraySort byDateDesc xs = sort_key (\<lambda>d. - dateAdded d) xs"
  by (induction xs) (simp_all add: arraySort_def insertBy_byDateDesc)

lemma newestFirst_iff: "newestFirst xs = sorted (map (\<lambda>d. - dateAdded d) xs)"
  by (simp add: newestFirst_def sorted_wrt_map)

lemma newestFirst_arraySort: "newestFirst (arraySort byDateDesc xs)"
  by (simp add: newestFirst_iff arraySort_byDateDesc)

lemma arraySort_id: "newestFirst xs \<Longrightarrow> arraySort byDateDesc xs = xs"
  by (simp add: newestFirst_iff arraySort_byDateDesc sort_key_id_if_sorted)

lemma newestFirst_take: "newestFirst xs \<Longrightarrow> newestFirst (take n xs)"
  unfolding newestFirst_def by (rule sorted_wrt_take)

lemma newestFirst_filter: "newestFirst xs \<Longrightarrow> newestFirst (filter P xs)"
  unfolding newestFirst_def by (rule sorted_wrt_filter)

lemma mset_arraySort: "mset (arraySort byDateDesc xs) = mset xs"
  by (simp add: arraySort_byDateDesc)

lemma arraySort_stable:
  "filter (\<lambda>d. dateAdded d = k) (arraySort byDateDesc xs) = filter (\<lambda>d. dateAdded d = k) xs"
  using sort_key_stable [of "\<lambda>d. - dateAdded d" "- k" xs]
  by (simp add: arraySort_byDateDesc)

section \<open>The pipeline as one filter after the section stage\<close>

lemma filterDocuments_keeps:
  "filterDocuments startOfDay now D sec q filters =
     filter (keeps startOfDay now q filters) (sectionFilter sec D)"
  unfolding filterDocuments_def searchFilter_def typeFilter_def categoryFilter_def
    tagFilter_def timeFilter_def keeps_def
  by (auto simp: Let_def intro: filter_cong)

lemma length_recent: "length (filterDocuments startOfDay now D Recent q filters) \<le> 6"
proof -
  have "length (filterDocuments startOfDay now D Recent q filters)
          \<le> length (sectionFilter Recent D)"
    by (simp add: filterDocuments_keeps)
  also have "\<dots> \<le> 6" by (simp add: sectionFilter_def)
  finally show ?thesis .
qed

lemma newestFirst_recent: "newestFirst (filterDocuments startOfDay now D Recent q filters)"
  by (simp add: filterDocuments_keeps sectionFilter_def newestFirst_filter newestFirst_take
      newestFirst_arraySort)

lemma sectionFilter_idem:
  "sectionFilter sec (filter P (sectionFilter sec D)) = filter P (sectionFilter sec D)"
proof (cases sec)
  case Recent
  let ?R = "filter P (take 6 (arraySort byDateDesc D))"
  have nf: "newestFirst ?R"
    by (simp add: newestFirst_filter newestFirst_take newestFirst_arraySort)
  have "length ?R \<le> length (take 6 (arraySort byDateDesc D))" by (rule length_filter_le)
  then have len: "length ?R \<le> 6" by simp
  show ?thesis using Recent len by (simp add: sectionFilter_def arraySort_id [OF nf])
qed (auto simp: sectionFilter_def intro: filter_cong)

lemma filterDocuments_idem:
  "filterDocuments startOfDay now (filterDocuments startOfDay now D sec q filters) sec q filters
     = filterDocuments startOfDay now D sec q filters"
  by (simp add: filterDocuments_keeps sectionFilter_idem)

section \<open>The effect and the store\<close>

lemma owns_alloc: "owns h0 v rh \<Longrightarrow> owns h0 w (alloc w (snd rh))"
  by (cases rh) (auto simp: owns_def alloc_def list_all_iff)

lemma owns_spread: "owns h0 (cells h0 d) (spread d h0)"
  by (simp add: owns_def spread_def alloc_def list_all_iff)

lemma owns_arrayFilter: "owns h0 v rh \<Longrightarrow> owns h0 (filter p v) (arrayFilter p rh)"
  using owns_alloc [of h0 v rh "filter p v"]
  by (cases rh) (simp add: arrayFilter_def owns_def)

lemma owns_sliceTo: "owns h0 v rh \<Longrightarrow> owns h0 (take n v) (sliceTo n rh)"
  using owns_alloc [of h0 v rh "take n v"]
  by (cases rh) (simp add: sliceTo_def owns_def)

lemma owns_sortInPlace: "owns h0 v rh \<Longrightarrow> owns h0 (arraySort cmp v) (sortInPlace cmp rh)"
  by (cases rh) (auto simp: sortInPlace_def owns_def list_all_iff)

lemma owns_if:
  "owns h0 v rh \<Longrightarrow> owns h0 (if c then filter p v else v) (if c then arrayFilter p rh else rh)"
  by (simp add: owns_arrayFilter)

lemma owns_section:
  "owns h0 v rh \<Longrightarrow>
   owns h0 (sectionFilter sec v)
     (if sec = Favorites then arrayFilter favorite rh
      else if sec = Articles then arrayFilter (\<lambda>doc. type doc = ''article'') rh
      else if sec = Recent then sliceTo 6 (sortInPlace byDateDesc rh)
      else rh)"
  by (simp add: sectionFilter_def owns_arrayFilter owns_sliceTo owns_sortInPlace)

lemma filterEffect_owns:
  "owns h0 (filterDocuments startOfDay now (cells h0 d) sec q filters)
     (filterEffect startOfDay now d sec q filters h0)"
  unfolding filterEffect_def filterDocuments_def Let_def searchFilter_def typeFilter_def
    categoryFilter_def tagFilter_def timeFilter_def
  by (intro owns_if owns_section owns_spread)

section \<open>Properties of the filter pipeline\<close>

text \<open>
  C1. In section \<open>recent\<close> the section stage is the first six documents of the stable
  sort by \<open>dateAdded\<close>, newest first: the sorted list is a rearrangement of the input,
  no document in it is followed by a younger one, and the documents of one instant
  \<open>k\<close> keep the order they had. The filter returns those six documents, in that
  order, less the ones the query and the options reject. So whatever the query, the
  options and the size of the input, it returns at most six documents, newest first.
\<close>

theorem recent_newest_first_at_most_six:
  "sectionFilter Recent D = take 6 (arraySort byDateDesc D)
   \<and> mset (arraySort byDateDesc D) = mset D
   \<and> newestFirst (arraySort byDateDesc D)
   \<and> filter (\<lambda>d. dateAdded d = k) (arraySort byDateDesc D) = filter (\<lambda>d. dateAdded d = k) D
   \<and> filterDocuments startOfDay now D Recent q filters
       = filter (keeps startOfDay now q filters) (take 6 (arraySort byDateDesc D))
   \<and> filterDocuments startOfDay now D Recent [] defaultFilters
       = take 6 (arraySort byDateDesc D)
   \<and> length (filterDocuments startOfDay now D Recent q filters) \<le> 6
   \<and> newestFirst (filterDocuments startOfDay now D Recent q filters)"
proof -
  have stage: "sectionFilter Recent D = take 6 (arraySort byDateDesc D)"
    by (simp add: sectionFilter_def)
  have whole: "filterDocuments startOfDay now D Recent q filters
       = filter (keeps startOfDay now q filters) (take 6 (arraySort byDateDesc D))"
    by (simp add: filterDocuments_keeps stage)
  have plain: "filterDocuments startOfDay now D Recent [] defaultFilters
       = take 6 (arraySort byDateDesc D)"
    by (simp add: filterDocuments_def searchFilter_def typeFilter_def categoryFilter_def
        tagFilter_def timeFilter_def defaultFilters_def stage)
  show ?thesis
    by (intro conjI stage mset_arraySort newestFirst_arraySort arraySort_stable whole plain
        length_recent newestFirst_recent)
qed

theorem recent_newest_first_at_most_six_witness:
  "filterDocuments utcStartOfDay 0 sevenDocs Recent [] defaultFilters
     = [mkDoc ''3'' ''c'' ''pdf'' False 9, mkDoc ''7'' ''g'' ''pdf'' False 9,
        mkDoc ''5'' ''e'' ''pdf'' False 7, mkDoc ''1'' ''a'' ''pdf'' False 5,
        mkDoc ''2'' ''b'' ''pdf'' False 3, mkDoc ''4'' ''d'' ''pdf'' False 3]
   \<and> filterDocuments utcStartOfDay 0 sevenDocs Recent ''f'' defaultFilters = []
   \<and> length (filterDocuments utcStartOfDay 0 sevenDocs Recent [] defaultFilters) \<le> 6
   \<and> newestFirst (filterDocuments utcStartOfDay 0 sevenDocs Recent [] defaultFilters)"
proof -
  have queried: "filterDocuments utcStartOfDay 0 sevenDocs Recent ''f'' defaultFilters = []"
    by (simp add: filterDocuments_def sectionFilter_def searchFilter_def typeFilter_def
        categoryFilter_def tagFilter_def timeFilter_def defaultFilters_def sevenDocs_def
        arraySort_def byDateDesc_def mkDoc_def matchesSearch_def toLowerCase_def
        toLowerChar_def)
  have "filterDocuments utcStartOfDay 0 sevenDocs Recent [] defaultFilters
     = [mkDoc ''3'' ''c'' ''pdf'' False 9, mkDoc ''7'' ''g'' ''pdf'' False 9,
        mkDoc ''5'' ''e'' ''pdf'' False 7, mkDoc ''1'' ''a'' ''pdf'' False 5,
        mkDoc ''2'' ''b'' ''pdf'' False 3, mkDoc ''4'' ''d'' ''pdf'' False 3]"
    by (simp add: filterDocuments_def sectionFilter_def searchFilter_def typeFilter_def
        categoryFilter_def tagFilter_def timeFilter_def defaultFilters_def sevenDocs_def
        arraySort_def byDateDesc_def mkDoc_def)
  moreover have "length (filterDocuments utcStartOfDay 0 sevenDocs Recent [] defaultFilters) \<le> 6"
    using recent_newest_first_at_most_six [of sevenDocs 0 utcStartOfDay 0 "[]" defaultFilters]
    by blast
  moreover have "newestFirst (filterDocuments utcStartOfDay 0 sevenDocs Recent [] defaultFilters)"
    using recent_newest_first_at_most_six [of sevenDocs 0 utcStartOfDay 0 "[]" defaultFilters]
    by blast
  ultimately show ?thesis
    using queried by blast
qed

text \<open>
  C2. With section \<open>files\<close>, the empty query and the default options, the filter returns
  the documents it was given, in their order, whatever the clock says.
\<close>

theorem filter_files_default_identity:
  "filterDocuments startOfDay now D Files [] defaultFilters = D"
  by (simp add: filterDocuments_def sectionFilter_def searchFilter_def typeFilter_def
      categoryFilter_def tagFilter_def timeFilter_def defaultFilters_def)

theorem filter_files_default_identity_witness:
  "filterDocuments utcStartOfDay 1717203600000 scenarioDocs Files [] defaultFilters = scenarioDocs"
  using filter_files_default_identity [of utcStartOfDay 1717203600000 scenarioDocs] .

text \<open>
  C3. The filter is idempotent: filtering its own result again, with the same section,
  query, options and clock, gives that result. Run as an effect on arrays in a store,
  it returns a reference to the filtered list and leaves every array allocated before
  the run, the input array among them, as it was; so a second run on the same inputs
  sees the same input and gives the same list.
\<close>

theorem filter_idempotent_no_side_effect:
  assumes "a < fresh h"
  shows "filterDocuments startOfDay now (filterDocuments startOfDay now D sec q filters) sec q filters
           = filterDocuments startOfDay now D sec q filters
         \<and> cells (snd (filterEffect startOfDay now d sec q filters h))
                 (fst (filterEffect startOfDay now d sec q filters h))
             = filterDocuments startOfDay now (cells h d) sec q filters
         \<and> cells (snd (filterEffect startOfDay now d sec q filters h)) a = cells h a"
proof -
  obtain r h' where e: "filterEffect startOfDay now d sec q filters h = (r, h')"
    by (cases "filterEffect startOfDay now d sec q filters h")
  have "owns h (filterDocuments startOfDay now (cells h d) sec q filters) (r, h')"
    using filterEffect_owns [of h startOfDay now d sec q filters] e by simp
  then show ?thesis using assms e by (simp add: owns_def list_all_iff filterDocuments_idem)
qed

theorem filter_idempotent_no_side_effect_witness:
  "(0::nat) < fresh (oneArray sevenDocs)
   \<and> filterDocuments utcStartOfDay 0
        (filterDocuments utcStartOfDay 0 sevenDocs Recent [] defaultFilters) Recent [] defaultFilters
      = filterDocuments utcStartOfDay 0 sevenDocs Recent [] defaultFilters
   \<and> cells (snd (filterEffect utcStartOfDay 0 0 Recent [] defaultFilters (oneArray sevenDocs)))
           (fst (filterEffect utcStartOfDay 0 0 Recent [] defaultFilters (oneArray sevenDocs)))
      = filterDocuments utcStartOfDay 0 sevenDocs Recent [] defaultFilters
   \<and> cells (snd (filterEffect utcStartOfDay 0 0 Recent [] defaultFilters (oneArray sevenDocs))) 0
      = sevenDocs"
proof -
  have h: "(0::nat) < fresh (oneArray sevenDocs)" and c: "cells (oneArray sevenDocs) 0 = sevenDocs"
    by (simp_all add: oneArray_def)
  show ?thesis
    using h c filter_idempotent_no_side_effect
      [OF h, of utcStartOfDay 0 sevenDocs Recent "[]" defaultFilters 0]
    by simp
qed

lemma includesOpt_single: "includesOpt [s] c = (c = Some s)"
  by (cases c) auto

text \<open>
  C5 (as the code has it). With the sentinel alone in the category set, a document
  whose category is the text "uncategorized" is kept although it has a category: the
  sentinel is an ordinary element of the array, and \<open>includes\<close> finds it.
\<close>

theorem uncategorized_literal_kept:
  "filterDocuments utcStartOfDay 0
      [(mkDoc ''1'' ''Notes'' ''pdf'' False 0)\<lparr>category := Some ''uncategorized''\<rparr>] Files []
      (defaultFilters\<lparr>categories := [''uncategorized'']\<rparr>)
     = [(mkDoc ''1'' ''Notes'' ''pdf'' False 0)\<lparr>category := Some ''uncategorized''\<rparr>]
   \<and> \<not> uncategorized ((mkDoc ''1'' ''Notes'' ''pdf'' False 0)\<lparr>category := Some ''uncategorized''\<rparr>)"
  by (simp add: filterDocuments_def sectionFilter_def searchFilter_def typeFilter_def
      categoryFilter_def tagFilter_def timeFilter_def defaultFilters_def mkDoc_def
      matchesCategory_def uncategorized_def)

text \<open>
  C5, amended. When the category set contains the sentinel "uncategorized", the
  category stage keeps exactly the documents whose category is empty or absent, those
  whose category is an element of the set, and every document when the set contains
  "all". When the set is the sentinel alone, it keeps the documents whose category is
  empty or absent and those whose category is the text "uncategorized"; so it keeps
  exactly the documents without a category when no document has that text as its
  category.
\<close>

theorem uncategorized_sentinel_keeps:
  assumes "''uncategorized'' \<in> set cs"
  shows "categoryFilter cs D
           = filter (\<lambda>d. uncategorized d \<or> includesOpt cs (category d) \<or> ''all'' \<in> set cs) D
         \<and> categoryFilter [''uncategorized''] D
           = filter (\<lambda>d. uncategorized d \<or> category d = Some ''uncategorized'') D
         \<and> (list_all (\<lambda>d. category d \<noteq> Some ''uncategorized'') D \<longrightarrow>
              categoryFilter [''uncategorized''] D = filter uncategorized D)"
proof -
  have general: "categoryFilter cs D
           = filter (\<lambda>d. uncategorized d \<or> includesOpt cs (category d) \<or> ''all'' \<in> set cs) D"
    using assms
    by (auto simp: categoryFilter_def matchesCategory_def uncategorized_def intro: filter_cong)
  have alone: "categoryFilter [''uncategorized''] D
           = filter (\<lambda>d. uncategorized d \<or> category d = Some ''uncategorized'') D"
    by (auto simp: categoryFilter_def matchesCategory_def uncategorized_def includesOpt_single
        intro: filter_cong)
  have "filter (\<lambda>d. uncategorized d \<or> category d = Some ''uncategorized'') D = filter uncategorized D"
    if "list_all (\<lambda>d. category d \<noteq> Some ''uncategorized'') D"
    using that by (auto simp: list_all_iff intro: filter_cong)
  with general alone show ?thesis by simp
qed

theorem uncategorized_sentinel_keeps_witness:
  "''uncategorized'' \<in> set [''Art'', ''uncategorized'']
   \<and> categoryFilter [''Art'', ''uncategorized'']
        [(mkDoc ''1'' ''a'' ''pdf'' False 0)\<lparr>category := Some ''Art''\<rparr>,
         (mkDoc ''2'' ''b'' ''pdf'' False 0)\<lparr>category := Some ''Law''\<rparr>,
         (mkDoc ''3'' ''c'' ''pdf'' False 0)\<lparr>category := Some []\<rparr>,
         mkDoc ''4'' ''d'' ''pdf'' False 0]
      = [(mkDoc ''1'' ''a'' ''pdf'' False 0)\<lparr>category := Some ''Art''\<rparr>,
         (mkDoc ''3'' ''c'' ''pdf'' False 0)\<lparr>category := Some []\<rparr>,
         mkDoc ''4'' ''d'' ''pdf'' False 0]
   \<and> categoryFilter [''uncategorized'']
        [(mkDoc ''2'' ''b'' ''pdf'' False 0)\<lparr>category := Some ''Law''\<rparr>,
         mkDoc ''4'' ''d'' ''pdf'' False 0]
      = [mkDoc ''4'' ''d'' ''pdf'' False 0]"
proof -
  have h: "''uncategorized'' \<in> set [''Art'', ''uncategorized'']" by simp
  show ?thesis
    using h
      uncategorized_sentinel_keeps [OF h, of
        "[(mkDoc ''1'' ''a'' ''pdf'' False 0)\<lparr>category := Some ''Art''\<rparr>,
          (mkDoc ''2'' ''b'' ''pdf'' False 0)\<lparr>category := Some ''Law''\<rparr>,
          (mkDoc ''3'' ''c'' ''pdf'' False 0)\<lparr>category := Some []\<rparr>,
          mkDoc ''4'' ''d'' ''pdf'' False 0]"]
      uncategorized_sentinel_keeps [OF h, of
        "[(mkDoc ''2'' ''b'' ''pdf'' False 0)\<lparr>category := Some ''Law''\<rparr>,
          mkDoc ''4'' ''d'' ''pdf'' False 0]"]
    by (simp add: uncategorized_def mkDoc_def)
qed



section \<open>Search and preview\<close>

text \<open>
  C6 (as the code has it). For the two documents of the scenario, which have a type but
  no title, tag or category that mentions "pdf", the search for "pdf" returns nothing:
  the search stage does not look at the type.
\<close>

theorem search_pdf_scenario_empty:
  "filterDocuments utcStartOfDay 0 scenarioDocs Files ''pdf'' defaultFilters = []"
  by (simp add: filterDocuments_def sectionFilter_def searchFilter_def typeFilter_def
      categoryFilter_def tagFilter_def timeFilter_def defaultFilters_def scenarioDocs_def
      mkDoc_def matchesSearch_def toLowerCase_def toLowerChar_def)

text \<open>
  C6, amended. For a list of two documents, section \<open>files\<close>, the query "pdf" and the
  default options, the filter returns the documents that match the query; it returns
  exactly the second document when that one matches and the first does not. A document
  matches when its lower-cased title, one of its lower-cased tags, or its lower-cased
  non-empty category contains the query; its type plays no part.
\<close>

theorem search_pdf_by_title_tags_category:
  "filterDocuments startOfDay now [d1, d2] Files ''pdf'' defaultFilters
     = filter (matchesSearch ''pdf'') [d1, d2]
   \<and> (filterDocuments startOfDay now [d1, d2] Files ''pdf'' defaultFilters = [d2])
       = (matchesSearch ''pdf'' d2 \<and> \<not> matchesSearch ''pdf'' d1)
   \<and> matchesSearch query doc
       = (includesStr (toLowerCase (title doc)) query
          \<or> (\<exists>tag \<in> set (tags doc). includesStr (toLowerCase tag) query)
          \<or> (\<exists>c. category doc = Some c \<and> c \<noteq> [] \<and> includesStr (toLowerCase c) query))
   \<and> matchesSearch query (doc\<lparr>type := ty\<rparr>) = matchesSearch query doc"
proof -
  have lower: "toLowerCase ''pdf'' = ''pdf''"
    by (simp add: toLowerCase_def toLowerChar_def)
  have whole: "filterDocuments startOfDay now [d1, d2] Files ''pdf'' defaultFilters
     = filter (matchesSearch ''pdf'') [d1, d2]"
    by (simp add: filterDocuments_def sectionFilter_def searchFilter_def typeFilter_def
        categoryFilter_def tagFilter_def timeFilter_def defaultFilters_def lower)
  have only: "(filter (matchesSearch ''pdf'') [d1, d2] = [d2])
       = (matchesSearch ''pdf'' d2 \<and> \<not> matchesSearch ''pdf'' d1)"
    by auto
  have fields: "matchesSearch query doc
       = (includesStr (toLowerCase (title doc)) query
          \<or> (\<exists>tag \<in> set (tags doc). includesStr (toLowerCase tag) query)
          \<or> (\<exists>c. category doc = Some c \<and> c \<noteq> [] \<and> includesStr (toLowerCase c) query))"
    by (auto simp: matchesSearch_def list_ex_iff split: option.splits)
  have "matchesSearch query (doc\<lparr>type := ty\<rparr>) = matchesSearch query doc"
    by (simp add: matchesSearch_def)
  with whole only fields show ?thesis by simp
qed

theorem search_pdf_by_title_tags_category_witness:
  "filterDocuments utcStartOfDay 0 titledDocs Files ''pdf'' defaultFilters
     = [mkDoc ''2'' ''Report.PDF'' ''pdf'' False 1717200000000]
   \<and> matchesSearch ''pdf'' (mkDoc ''2'' ''Report.PDF'' ''pdf'' False 1717200000000)
   \<and> \<not> matchesSearch ''pdf'' (mkDoc ''1'' ''Diary'' ''article'' True 1704067200000)"
proof -
  have m: "matchesSearch ''pdf'' (mkDoc ''2'' ''Report.PDF'' ''pdf'' False 1717200000000)"
    "\<not> matchesSearch ''pdf'' (mkDoc ''1'' ''Diary'' ''article'' True 1704067200000)"
    by (simp_all add: matchesSearch_def mkDoc_def toLowerCase_def toLowerChar_def)
  show ?thesis
    using m search_pdf_by_title_tags_category
      [of utcStartOfDay 0 "mkDoc ''1'' ''Diary'' ''article'' True 1704067200000"
          "mkDoc ''2'' ''Report.PDF'' ''pdf'' False 1717200000000"]
    by (simp add: titledDocs_def)
qed

lemma upload_pdfNamedMd:
  "uploadFile okBackend
      \<lparr>theFile = pdfNamedMd, UploadParams.title = ''Notes'', UploadParams.category = None,
       UploadParams.tags = None, UploadParams.backgroundColor = None\<rparr>
     = ([StorageUpload ''1700000000000_ab12.md'' pdfNamedMd,
         InsertDocument ''1700000000000_ab12.md''],
        Inr pdfNamedMdDoc)"
  by (simp add: uploadFile_def detectType_def okBackend_def pdfNamedMd_def pdfNamedMdDoc_def
      Let_def)

text \<open>
  C7 (as the code has it). A PDF uploaded under a name that ends in \<open>.md\<close> gets the
  type \<open>pdf\<close> and a storage path that ends in \<open>.md\<close>; it is not an article, and the
  viewer shows it as a PDF, not as markdown: the type \<open>pdf\<close> is tested before the path.
\<close>

theorem classify_pdf_with_md_path:
  "type pdfNamedMdDoc \<noteq> ''article''
   \<and> pathEndsWith (storagePath pdfNamedMdDoc) ''.md''
   \<and> classify pdfNamedMdDoc = Pdf"
  by (simp add: classify_def pdfNamedMdDoc_def endsWith_def)

text \<open>
  C7, amended. The mode is a function of the type and the storage path alone, by the
  rules in this order: type \<open>article\<close> gives InlineText; type \<open>pdf\<close> gives Pdf; type
  \<open>image\<close> gives Image; a type that contains "markdown" or a storage path that ends in
  \<open>.md\<close> gives Markdown; a type that contains "text" or a storage path that ends in
  \<open>.txt\<close> or \<open>.json\<close> gives PlainText; anything else is Unsupported. In particular a
  document whose storage path ends in \<open>.md\<close> is shown as Markdown when its type is
  none of \<open>article\<close>, \<open>pdf\<close> and \<open>image\<close>. The result differs from the order article,
  markdown, text, image, pdf exactly for a PDF or an image whose storage path ends in
  \<open>.md\<close>, \<open>.txt\<close> or \<open>.json\<close>.
\<close>

theorem classify_rules_in_order:
  "(type d = type d' \<and> storagePath d = storagePath d' \<longrightarrow> classify d = classify d')
   \<and> (type d = ''article'' \<longrightarrow> classify d = InlineText)
   \<and> (type d = ''pdf'' \<longrightarrow> classify d = Pdf)
   \<and> (type d = ''image'' \<longrightarrow> classify d = Image)
   \<and> (type d \<notin> {''article'', ''pdf'', ''image''}
        \<and> (includesStr (type d) ''markdown'' \<or> pathEndsWith (storagePath d) ''.md'')
       \<longrightarrow> classify d = Markdown)
   \<and> (type d \<notin> {''article'', ''pdf'', ''image''}
        \<and> \<not> (includesStr (type d) ''markdown'' \<or> pathEndsWith (storagePath d) ''.md'')
        \<and> (includesStr (type d) ''text'' \<or> pathEndsWith (storagePath d) ''.txt''
             \<or> pathEndsWith (storagePath d) ''.json'')
       \<longrightarrow> classify d = PlainText)
   \<and> (type d \<notin> {''article'', ''pdf'', ''image''}
        \<and> \<not> (includesStr (type d) ''markdown'' \<or> pathEndsWith (storagePath d) ''.md'')
        \<and> \<not> (includesStr (type d) ''text'' \<or> pathEndsWith (storagePath d) ''.txt''
               \<or> pathEndsWith (storagePath d) ''.json'')
       \<longrightarrow> classify d = Unsupported)
   \<and> (classify d = classifyBySpec d)
       = (\<not> (type d \<in> {''pdf'', ''image''}
             \<and> (pathEndsWith (storagePath d) ''.md'' \<or> pathEndsWith (storagePath d) ''.txt''
                  \<or> pathEndsWith (storagePath d) ''.json'')))"
proof -
  have order: "(classify d = classifyBySpec d)
       = (\<not> (type d \<in> {''pdf'', ''image''}
             \<and> (pathEndsWith (storagePath d) ''.md'' \<or> pathEndsWith (storagePath d) ''.txt''
                  \<or> pathEndsWith (storagePath d) ''.json'')))"
  proof (cases "type d = ''pdf''")
    case True
    then show ?thesis by (simp add: classify_def classifyBySpec_def)
  next
    case notPdf: False
    show ?thesis
    proof (cases "type d = ''image''")
      case True
      then show ?thesis by (simp add: classify_def classifyBySpec_def)
    next
      case False
      with notPdf show ?thesis by (simp add: classify_def classifyBySpec_def)
    qed
  qed
  show ?thesis unfolding order by (simp add: classify_def)
qed

theorem classify_rules_in_order_witness:
  "type (pdfNamedMdDoc\<lparr>type := ''other''\<rparr>) \<notin> {''article'', ''pdf'', ''image''}
   \<and> pathEndsWith (storagePath (pdfNamedMdDoc\<lparr>type := ''other''\<rparr>)) ''.md''
   \<and> classify (pdfNamedMdDoc\<lparr>type := ''other''\<rparr>) = Markdown
   \<and> type (mkDoc ''1'' ''Diary'' ''article'' True 0) = ''article''
   \<and> classify (mkDoc ''1'' ''Diary'' ''article'' True 0) = InlineText"
proof -
  have h: "type (pdfNamedMdDoc\<lparr>type := ''other''\<rparr>) \<notin> {''article'', ''pdf'', ''image''}"
    "pathEndsWith (storagePath (pdfNamedMdDoc\<lparr>type := ''other''\<rparr>)) ''.md''"
    "type (mkDoc ''1'' ''Diary'' ''article'' True 0) = ''article''"
    by (simp_all add: pdfNamedMdDoc_def mkDoc_def endsWith_def)
  show ?thesis
    using h classify_rules_in_order [of "pdfNamedMdDoc\<lparr>type := ''other''\<rparr>"]
      classify_rules_in_order [of "mkDoc ''1'' ''Diary'' ''article'' True 0"]
    by simp
qed

section \<open>Derived collections\<close>

lemma foldl_setAdd:
  "foldl setAdd acc xs = acc @ filter (\<lambda>y. y \<notin> set acc) (firstOccurrences xs)"
proof (induction xs arbitrary: acc)
  case Nil
  then show ?case by simp
next
  case (Cons x xs)
  have step: "foldl setAdd acc (x # xs)
                = setAdd acc x @ filter (\<lambda>y. y \<notin> set (setAdd acc x)) (firstOccurrences xs)"
    using Cons.IH [of "setAdd acc x"] by simp
  show ?case
  proof (cases "x \<in> set acc")
    case True
    then have "filter (\<lambda>y. y \<noteq> x \<and> y \<notin> set acc) (firstOccurrences xs)
                = filter (\<lambda>y. y \<notin> set acc) (firstOccurrences xs)"
      by (intro filter_cong) auto
    with True show ?thesis unfolding step by (simp add: setAdd_def)
  next
    case False
    then show ?thesis unfolding step by (simp add: setAdd_def)
  qed
qed

lemma newSet_firstOccurrences: "newSet xs = firstOccurrences xs"
  by (simp add: newSet_def foldl_setAdd)

lemma set_firstOccurrences: "set (firstOccurrences xs) = set xs"
  by (induction xs) auto

lemma distinct_firstOccurrences: "distinct (firstOccurrences xs)"
  by (induction xs) (auto simp: set_firstOccurrences)

lemma set_truthyCategories:
  "set (truthyCategories docs) = {c. c \<noteq> [] \<and> (\<exists>d \<in> set docs. category d = Some c)}"
  by (induction docs) (auto split: option.splits)

lemma distinct_categories_iff:
  "distinct (getAvailableCategories docs)
     = (\<forall>d \<in> set docs. category d \<noteq> Some ''all'' \<and> category d \<noteq> Some ''uncategorized'')"
  by (auto simp: getAvailableCategories_def newSet_firstOccurrences distinct_firstOccurrences
        set_firstOccurrences set_truthyCategories)

text \<open>
  C8 (as the code has it). A document whose category is the text "all" puts that text
  into the list a second time, next to the sentinel: the list has a duplicate.
\<close>

theorem availableCategories_duplicate_all:
  "getAvailableCategories [(mkDoc ''1'' ''Notes'' ''pdf'' False 0)\<lparr>category := Some ''all''\<rparr>]
     = [''all'', ''all'', ''uncategorized'']
   \<and> \<not> distinct
        (getAvailableCategories [(mkDoc ''1'' ''Notes'' ''pdf'' False 0)\<lparr>category := Some ''all''\<rparr>])"
  by (simp add: getAvailableCategories_def newSet_def setAdd_def mkDoc_def)

text \<open>
  C8, amended. The available categories are the sentinel "all", then the distinct
  non-empty categories of the documents in first-seen order, then the sentinel
  "uncategorized". The part between the sentinels has no duplicate and holds exactly
  the non-empty categories; the whole list has no duplicate exactly when no document
  has "all" or "uncategorized" as its category. The available tags are the distinct
  tags of the documents in first-seen order: no duplicate, and exactly the tags that
  some document has.
\<close>

theorem available_collections_first_seen:
  "getAvailableCategories docs
     = ''all'' # firstOccurrences (truthyCategories docs) @ [''uncategorized'']
   \<and> distinct (firstOccurrences (truthyCategories docs))
   \<and> set (firstOccurrences (truthyCategories docs))
       = {c. c \<noteq> [] \<and> (\<exists>d \<in> set docs. category d = Some c)}
   \<and> distinct (getAvailableCategories docs)
       = (\<forall>d \<in> set docs. category d \<noteq> Some ''all'' \<and> category d \<noteq> Some ''uncategorized'')
   \<and> getAvailableTags docs = firstOccurrences (concat (map tags docs))
   \<and> distinct (getAvailableTags docs)
   \<and> set (getAvailableTags docs) = (\<Union>d \<in> set docs. set (tags d))"
proof -
  have shape: "getAvailableCategories docs
     = ''all'' # firstOccurrences (truthyCategories docs) @ [''uncategorized'']"
    by (simp add: getAvailableCategories_def newSet_firstOccurrences)
  have middle: "set (firstOccurrences (truthyCategories docs))
       = {c. c \<noteq> [] \<and> (\<exists>d \<in> set docs. category d = Some c)}"
    by (simp add: set_firstOccurrences set_truthyCategories)
  have tagList: "getAvailableTags docs = firstOccurrences (concat (map tags docs))"
    by (simp add: getAvailableTags_def newSet_firstOccurrences)
  have tagSet: "set (getAvailableTags docs) = (\<Union>d \<in> set docs. set (tags d))"
    by (simp add: tagList set_firstOccurrences)
  have tagDistinct: "distinct (getAvailableTags docs)"
    by (simp add: tagList distinct_firstOccurrences)
  show ?thesis
    by (intro conjI shape distinct_firstOccurrences middle distinct_categories_iff tagList
        tagDistinct tagSet)
qed

theorem available_collections_first_seen_witness:
  "getAvailableCategories
      [(mkDoc ''1'' ''a'' ''pdf'' False 0)\<lparr>tags := [''design'', ''draft''], category := Some ''Art''\<rparr>,
       (mkDoc ''2'' ''b'' ''pdf'' False 0)\<lparr>tags := [''design''], category := Some []\<rparr>,
       (mkDoc ''3'' ''c'' ''pdf'' False 0)\<lparr>tags := [''law'', ''design''], category := Some ''Law''\<rparr>,
       (mkDoc ''4'' ''d'' ''pdf'' False 0)\<lparr>category := Some ''Art''\<rparr>]
     = [''all'', ''Art'', ''Law'', ''uncategorized'']
   \<and> getAvailableTags
      [(mkDoc ''1'' ''a'' ''pdf'' False 0)\<lparr>tags := [''design'', ''draft''], category := Some ''Art''\<rparr>,
       (mkDoc ''2'' ''b'' ''pdf'' False 0)\<lparr>tags := [''design''], category := Some []\<rparr>,
       (mkDoc ''3'' ''c'' ''pdf'' False 0)\<lparr>tags := [''law'', ''design''], category := Some ''Law''\<rparr>,
       (mkDoc ''4'' ''d'' ''pdf'' False 0)\<lparr>category := Some ''Art''\<rparr>]
     = [''design'', ''draft'', ''law'']"
  using available_collections_first_seen [of
      "[(mkDoc ''1'' ''a'' ''pdf'' False 0)\<lparr>tags := [''design'', ''draft''], category := Some ''Art''\<rparr>,
        (mkDoc ''2'' ''b'' ''pdf'' False 0)\<lparr>tags := [''design''], category := Some []\<rparr>,
        (mkDoc ''3'' ''c'' ''pdf'' False 0)\<lparr>tags := [''law'', ''design''], category := Some ''Law''\<rparr>,
        (mkDoc ''4'' ''d'' ''pdf'' False 0)\<lparr>category := Some ''Art''\<rparr>]"]
  by (simp add: mkDoc_def)

section \<open>The filter state\<close>

lemma types_step: "allStandsAlone (types f) \<Longrightarrow> allStandsAlone (types (sidebarStep f e))"
  by (cases e)
     (auto simp: allStandsAlone_def handleTypeChange_def handleCategoryChange_def
        handleTimeChange_def handleTagClick_def defaultFilters_def Let_def)

lemma categories_step:
  "allStandsAlone (categories f) \<Longrightarrow> allStandsAlone (categories (sidebarStep f e))"
  by (cases e)
     (auto simp: allStandsAlone_def handleTypeChange_def handleCategoryChange_def
        handleTimeChange_def handleTagClick_def defaultFilters_def Let_def)

lemma sidebar_invariant:
  "allStandsAlone (types f) \<and> allStandsAlone (categories f) \<Longrightarrow>
   allStandsAlone (types (foldl sidebarStep f es))
   \<and> allStandsAlone (categories (foldl sidebarStep f es))"
  by (induction es arbitrary: f) (simp_all add: types_step categories_step)

text \<open>
  C10. After any sequence of sidebar events from the initial filters, the selected
  types are empty, or exactly "all", or free of "all", and so are the selected
  categories. Ticking "all" leaves "all" alone, and ticking a concrete value removes
  "all" and appends the value.
\<close>

theorem all_sentinel_stands_alone:
  "allStandsAlone (types (sidebarRun events))
   \<and> allStandsAlone (categories (sidebarRun events))
   \<and> types (handleTypeChange ''all'' True f) = [''all'']
   \<and> categories (handleCategoryChange ''all'' True f) = [''all'']
   \<and> (v \<noteq> ''all'' \<longrightarrow>
        types (handleTypeChange v True f) = filter (\<lambda>t. t \<noteq> ''all'') (types f) @ [v]
        \<and> categories (handleCategoryChange v True f)
            = filter (\<lambda>c. c \<noteq> ''all'') (categories f) @ [v])"
proof -
  have "allStandsAlone (types (sidebarRun events))
        \<and> allStandsAlone (categories (sidebarRun events))"
    unfolding sidebarRun_def
    by (rule sidebar_invariant) (simp add: allStandsAlone_def defaultFilters_def)
  then show ?thesis
    by (simp add: handleTypeChange_def handleCategoryChange_def)
qed

theorem all_sentinel_stands_alone_witness:
  "sidebarRun [TypeChange ''pdf'' True, TypeChange ''image'' True, TypeChange ''all'' True,
               CategoryChange ''all'' True, CategoryChange ''Art'' True, TagClick ''design'']
     = \<lparr>types = [''all''], categories = [''Art''], timeframe = AllTime,
        FilterOptions.tags = [''design'']\<rparr>
   \<and> allStandsAlone [''all'']
   \<and> allStandsAlone [''Art'']
   \<and> ''Art'' \<noteq> ''all''"
proof -
  have run: "sidebarRun [TypeChange ''pdf'' True, TypeChange ''image'' True, TypeChange ''all'' True,
               CategoryChange ''all'' True, CategoryChange ''Art'' True, TagClick ''design'']
     = \<lparr>types = [''all''], categories = [''Art''], timeframe = AllTime,
        FilterOptions.tags = [''design'']\<rparr>"
    by (simp add: sidebarRun_def handleTypeChange_def handleCategoryChange_def
        handleTagClick_def defaultFilters_def)
  show ?thesis
    using all_sentinel_stands_alone [of
        "[TypeChange ''pdf'' True, TypeChange ''image'' True, TypeChange ''all'' True,
          CategoryChange ''all'' True, CategoryChange ''Art'' True, TagClick ''design'']"
        defaultFilters "''Art''"]
    unfolding run by simp
qed

section \<open>Uploading\<close>

lemma uploadedFiles_append: "uploadedFiles (xs @ ys) = uploadedFiles xs @ uploadedFiles ys"
  by (induction xs rule: uploadedFiles.induct) simp_all

lemma uploadedFiles_uploadFile: "uploadedFiles (fst (uploadFile env params)) = [theFile params]"
  by (simp add: uploadFile_def Let_def split: prod.splits option.splits)

lemma uploadedFiles_handleSubmit:
  "uploadedFiles (snd (handleSubmit env m)) = [] \<or>
   (\<exists>f. selectedFile m = Some f \<and> uploadedFiles (snd (handleSubmit env m)) = [f])"
proof (cases "selectedFile m")
  case None
  then show ?thesis by (simp add: handleSubmit_def)
next
  case (Some f)
  show ?thesis
  proof (cases "trim (titleInput m) = []")
    case True
    with Some show ?thesis by (simp add: handleSubmit_def)
  next
    case False
    let ?p = "\<lparr>theFile = f,
              UploadParams.title = trim (titleInput m),
              UploadParams.category =
                (if trim (categoryInput m) \<noteq> [] then Some (trim (categoryInput m)) else None),
              UploadParams.tags =
                Some (if trim (tagsInput m) \<noteq> []
                      then map trim (splitOn (CHR '','') (tagsInput m)) else []),
              UploadParams.backgroundColor = Some (colorInput m)\<rparr>"
    have "uploadedFiles (fst (uploadFile env ?p)) = [f]"
      by (simp add: uploadedFiles_uploadFile)
    with Some False show ?thesis
      by (auto simp: handleSubmit_def Let_def split: prod.splits sum.splits)
  qed
qed

lemma selected_handleSubmit:
  "selectedFile (fst (handleSubmit env m)) = None
   \<or> selectedFile (fst (handleSubmit env m)) = selectedFile m"
  by (auto simp: handleSubmit_def Let_def resetForm_def
      split: option.splits prod.splits sum.splits)

lemma modalInv_step:
  assumes inv: "modalInv ms"
  shows "modalInv (modalStep ms e)"
proof (cases ms)
  case (Pair m sent)
  show ?thesis
  proof (cases e)
    case (Drop fs)
    with Pair inv show ?thesis
      by (auto simp: modalInv_def onDrop_def withinLimit_def split: list.splits option.splits)
  next
    case (Submit env)
    obtain m' calls where hs: "handleSubmit env m = (m', calls)"
      by (cases "handleSubmit env m")
    from uploadedFiles_handleSubmit [of env m] selected_handleSubmit [of env m] hs Pair inv Submit
    show ?thesis
      by (auto simp: modalInv_def uploadedFiles_append split: option.splits)
  next
    case RemoveFile
    with Pair inv show ?thesis by (simp add: modalInv_def)
  next
    case (SetTitle v)
    with Pair inv show ?thesis by (simp add: modalInv_def)
  next
    case (SetCategory v)
    with Pair inv show ?thesis by (simp add: modalInv_def)
  next
    case (SetTags v)
    with Pair inv show ?thesis by (simp add: modalInv_def)
  next
    case (SelectColor v)
    with Pair inv show ?thesis by (simp add: modalInv_def)
  next
    case Close
    with Pair inv show ?thesis by (simp add: modalInv_def resetForm_def)
  qed
qed

lemma modalInv_run: "modalInv ms \<Longrightarrow> modalInv (foldl modalStep ms es)"
  by (induction es arbitrary: ms) (simp_all add: modalInv_step)

lemma modal_uploads_within_limit: "list_all withinLimit (uploadedFiles (snd (modalRun events)))"
proof -
  have "modalInv (modalRun events)"
    unfolding modalRun_def by (rule modalInv_run) (simp add: modalInv_def resetForm_def)
  then show ?thesis by (simp add: modalInv_def split: prod.splits)
qed

text \<open>
  C4 (as the code has it). Given a file of 11 MiB and a store that answers,
  \<open>uploadFile\<close> sends the blob to the bucket, inserts the row and returns the document:
  it has no size check and no size error.
\<close>

theorem uploadFile_sends_oversized_file:
  "fileSize bigFile > MAX_FILE_SIZE
   \<and> uploadFile okBackend
        \<lparr>theFile = bigFile, UploadParams.title = ''Big'', UploadParams.category = None,
         UploadParams.tags = None, UploadParams.backgroundColor = None\<rparr>
      = ([StorageUpload ''1700000000000_ab12.pdf'' bigFile,
          InsertDocument ''1700000000000_ab12.pdf''],
         Inr \<lparr>id = ''42'', title = ''Big'', type = ''pdf'', tags = [],
              dateAdded = 1700000000000, favorite = False, category = Some [],
              backgroundColor = ''#FFEBEE'', content = None,
              storagePath = Some ''1700000000000_ab12.pdf''\<rparr>)"
  by (simp add: uploadFile_def detectType_def okBackend_def bigFile_def MAX_FILE_SIZE_def
      Let_def)

text \<open>
  C4, amended. The ceiling of 10 MiB is enforced by the upload form. When a file above
  the ceiling is dropped, \<open>onDrop\<close> sets the error "File exceeds the 10MB limit", leaves
  the selection as it was and sends nothing. So after any sequence of form events from
  the empty form, every blob sent to the bucket is within the ceiling, and a file above
  it is never among them. \<open>uploadFile\<close> itself sends the file it is given.
\<close>

theorem upload_size_gate_in_form:
  assumes "fileSize f > MAX_FILE_SIZE"
  shows "onDrop (f # fs) m = m\<lparr>errorMsg := Some ''File exceeds the 10MB limit''\<rparr>
         \<and> modalStep (m, sent) (Drop (f # fs))
             = (m\<lparr>errorMsg := Some ''File exceeds the 10MB limit''\<rparr>, sent)
         \<and> list_all withinLimit (uploadedFiles (snd (modalRun events)))
         \<and> f \<notin> set (uploadedFiles (snd (modalRun events)))
         \<and> uploadedFiles (fst (uploadFile env params)) = [theFile params]"
proof -
  have drop: "onDrop (f # fs) m = m\<lparr>errorMsg := Some ''File exceeds the 10MB limit''\<rparr>"
    using assms by (simp add: onDrop_def)
  have "\<not> withinLimit f" using assms by (simp add: withinLimit_def)
  then have never: "f \<notin> set (uploadedFiles (snd (modalRun events)))"
    using modal_uploads_within_limit [of events] by (auto simp: list_all_iff)
  show ?thesis
    using drop never modal_uploads_within_limit [of events] uploadedFiles_uploadFile [of env params]
    by simp
qed

theorem upload_size_gate_in_form_witness:
  "fileSize bigFile > MAX_FILE_SIZE
   \<and> onDrop [bigFile] resetForm = resetForm\<lparr>errorMsg := Some ''File exceeds the 10MB limit''\<rparr>
   \<and> modalRun [Drop [bigFile], SetTitle '' Big '', Submit okBackend,
                Drop [smallFile], Submit okBackend]
      = (resetForm,
         [StorageUpload ''1700000000000_ab12.txt'' smallFile,
          InsertDocument ''1700000000000_ab12.txt''])
   \<and> bigFile \<notin> set (uploadedFiles (snd (modalRun
        [Drop [bigFile], SetTitle '' Big '', Submit okBackend,
         Drop [smallFile], Submit okBackend])))"
proof -
  have h: "fileSize bigFile > MAX_FILE_SIZE"
    by (simp add: bigFile_def MAX_FILE_SIZE_def)
  have run: "modalRun [Drop [bigFile], SetTitle '' Big '', Submit okBackend,
                Drop [smallFile], Submit okBackend]
      = (resetForm,
         [StorageUpload ''1700000000000_ab12.txt'' smallFile,
          InsertDocument ''1700000000000_ab12.txt''])"
    by (simp add: modalRun_def onDrop_def handleSubmit_def uploadFile_def detectType_def
        okBackend_def bigFile_def smallFile_def MAX_FILE_SIZE_def trim_def isSpace_def
        resetForm_def Let_def)
  show ?thesis
    using h run upload_size_gate_in_form [OF h, of "[]" resetForm "[]"
        "[Drop [bigFile], SetTitle '' Big '', Submit okBackend,
          Drop [smallFile], Submit okBackend]"]
    by simp
qed

end
